theory Spec2Isabelle
  imports Main
begin

section \<open>Data model\<close>

text \<open>
  The repository holds two variants of one route compiler and dispatcher,
  \<^verbatim>\<open>tawdry.py\<close> and \<^verbatim>\<open>web.py\<close>. The functions
  \<^verbatim>\<open>compile_route_regex\<close>, \<^verbatim>\<open>get_parameter_mappings\<close>,
  \<^verbatim>\<open>map_params\<close>, the re-walk (\<^verbatim>\<open>get_route_response\<close> in
  \<^verbatim>\<open>tawdry.py\<close>, \<^verbatim>\<open>get_url_vars\<close> in \<^verbatim>\<open>web.py\<close>) and the
  router's \<^verbatim>\<open>__call__\<close> are the same text in both files and are embedded once.
  \<^verbatim>\<open>generate_sitemap\<close> differs and is embedded twice.

  Python exceptions are values of \<open>exn\<close>; a function that can raise returns
  \<open>exn + 'a\<close> with \<open>Inl\<close> the exception. \<open>HTTPException s\<close> stands for
  \<^verbatim>\<open>webob.exc.HTTPException\<close> with status \<open>s\<close>; \<open>ReError\<close> for
  \<^verbatim>\<open>re.error\<close>; \<open>OtherError\<close> for any other exception a handler or a
  converter raises.
\<close>

datatype exn =
    KeyError
  | TypeError
  | ValueError string
  | UnboundLocalError
  | StopIteration
  | ReError
  | HTTPException nat
  | OtherError string

fun is_http :: "exn \<Rightarrow> bool" where
  "is_http (HTTPException s) = True"
| "is_http _ = False"

text \<open>
  Values that travel through the Resolved Context: a raw string captured from the
  path, a domain object of the application (type \<open>'v\<close>), or an
  \<^verbatim>\<open>HTTPException\<close> instance that a handler returned instead of raising.
\<close>

datatype 'v val = Str string | Obj 'v | HTTPVal nat

text \<open>
  A parameter annotation as \<^verbatim>\<open>inspect.signature\<close> reports it:
  \<^verbatim>\<open>inspect.Signature.empty\<close> or a callable applied to the value.
\<close>

datatype 'v annotation = Empty | Conv "'v val \<Rightarrow> exn + 'v val"

text \<open>
  The request as the dispatcher uses it: \<^verbatim>\<open>path_info\<close> and
  \<^verbatim>\<open>urlvars\<close> (the match's \<^verbatim>\<open>groupdict()\<close>). Python dictionaries keep
  insertion order, and \<^verbatim>\<open>map_params\<close> iterates one, so dictionaries are
  association lists.
\<close>

record request =
  path_info :: string
  urlvars :: "(string \<times> string) list"

text \<open>
  A handler is a Python function: \<open>params\<close> is its parameter list with annotations
  (the request parameter first), \<open>body\<close> what it computes from the request and its
  keyword arguments. Handlers are taken to have plain required parameters only (no
  defaults, no \<^verbatim>\<open>*args\<close>, no \<^verbatim>\<open>**kwargs\<close>) and to be truthy objects.
\<close>

record 'v handler =
  params :: "(string \<times> 'v annotation) list"
  body :: "request \<Rightarrow> (string \<rightharpoonup> 'v val) \<Rightarrow> exn + 'v val"

text \<open>
  A sitemap node: a \<^verbatim>\<open>Mapping\<close>, a \<^verbatim>\<open>Callable\<close>, or anything else.
  For an object that is neither, \<open>Other t c\<close> records the two things the re-walk asks
  of it: its truth value \<open>t\<close> and the outcome \<open>c\<close> of \<^verbatim>\<open>'' in obj\<close>
  (\<open>None\<close> when that raises \<^verbatim>\<open>TypeError\<close>). Subscripting such an object with
  a string raises \<^verbatim>\<open>TypeError\<close> (numbers, strings, lists, tuples,
  \<^verbatim>\<open>None\<close>).
\<close>

datatype 'v node =
    Branch "(string \<times> 'v node) list"
  | Leaf "'v handler"
  | Other bool "bool option"

type_synonym 'v sitemap = "(string \<times> 'v node) list"

type_synonym 'v route = "string list \<times> 'v handler"

section \<open>Route compiler\<close>

subsection \<open>\<^verbatim>\<open>generate_sitemap\<close> of \<^verbatim>\<open>tawdry.py\<close>\<close>

text \<open>
  The generator yields routes until it raises or is exhausted: the result is the list
  of routes yielded and the exception, if any, that ended the iteration. The local
  variable \<^verbatim>\<open>prefix\<close> is rebound in the \<^verbatim>\<open>Callable\<close> branch and the loop
  goes on with the new binding, so it is threaded through the items.
\<close>

definition invalid_datatype :: exn where
  "invalid_datatype = ValueError ''Invalid datatype for sitemap''"

fun generate_sitemap :: "'v sitemap \<Rightarrow> string list \<Rightarrow> 'v route list \<times> exn option" where
  "generate_sitemap [] prefix = ([], None)"
| "generate_sitemap ((segment, sub_segment) # items) prefix =
     (case sub_segment of
        Branch m \<Rightarrow>
          (case generate_sitemap m (prefix @ [segment]) of
             (rs, Some e) \<Rightarrow> (rs, Some e)
           | (rs, None) \<Rightarrow>
               (case generate_sitemap items prefix of (rs', e) \<Rightarrow> (rs @ rs', e)))
      | Leaf h \<Rightarrow>
          (let prefix' = (if segment \<noteq> [] then prefix @ [segment] else prefix) in
           case generate_sitemap items prefix' of (rs', e) \<Rightarrow> ((prefix', h) # rs', e))
      | Other t c \<Rightarrow> ([], Some invalid_datatype))"

subsection \<open>\<^verbatim>\<open>generate_sitemap\<close> of \<^verbatim>\<open>web.py\<close>\<close>

text \<open>
  Here \<^verbatim>\<open>prefix\<close> is wrapped in a list on entry, also in the recursive call,
  which passes a list: the yielded template can hold lists among its elements.
  \<^verbatim>\<open>segment\<close> is rebound to the one-element list \<^verbatim>\<open>[segment]\<close> before it
  is tested, and a non-empty list is true.
\<close>

datatype pyobj = PStr string | PList "pyobj list"

type_synonym 'v web_route = "pyobj list \<times> 'v handler"

fun web_generate_sitemap :: "'v sitemap \<Rightarrow> pyobj list \<Rightarrow> 'v web_route list \<times> exn option" where
  "web_generate_sitemap [] prefix = ([], None)"
| "web_generate_sitemap ((segment, sub_segment) # items) prefix =
     (let segment' = [PStr segment] in
      case sub_segment of
        Branch m \<Rightarrow>
          (case web_generate_sitemap m [PList (prefix @ segment')] of
             (rs, Some e) \<Rightarrow> (rs, Some e)
           | (rs, None) \<Rightarrow>
               (case web_generate_sitemap items prefix of (rs', e) \<Rightarrow> (rs @ rs', e)))
      | Leaf h \<Rightarrow>
          (let result = (if segment' \<noteq> [] then prefix @ segment' else prefix) in
           case web_generate_sitemap items prefix of (rs', e) \<Rightarrow> ((result, h) # rs', e))
      | Other t c \<Rightarrow> ([], Some invalid_datatype))"

text \<open>
  The function's entry: \<^verbatim>\<open>prefix = [] if prefix is None else [prefix]\<close>. The
  second argument of \<open>web_generate_sitemap\<close> is the list after this step.
\<close>

definition web_entry_prefix :: "pyobj option \<Rightarrow> pyobj list" where
  "web_entry_prefix prefix = (case prefix of None \<Rightarrow> [] | Some p \<Rightarrow> [p])"

subsection \<open>\<^verbatim>\<open>compile_route_regex\<close>\<close>

text \<open>
  Strings are \<open>char list\<close>, and a \<open>char\<close> is read as the code point of the
  same number, U+0000 to U+00FF; a string with a code point above U+00FF is not a
  value of the type. \<^verbatim>\<open>\w\<close> in a \<^verbatim>\<open>str\<close> pattern is the Unicode
  class: \<^verbatim>\<open>c.isalnum() or c == '_'\<close>. Up to U+00FF these are the ASCII letters
  and digits, the underscore, the Latin-1 letters (\<open>0xAA\<close>, \<open>0xB5\<close>, \<open>0xBA\<close>,
  \<open>0xC0\<close> to \<open>0xFF\<close> without \<open>0xD7\<close> and \<open>0xF7\<close>) and the numeric
  characters \<open>0xB2\<close>, \<open>0xB3\<close>, \<open>0xB9\<close>, \<open>0xBC\<close> to \<open>0xBE\<close>.
\<close>

definition is_word :: "char \<Rightarrow> bool" where
  "is_word c =
     (let n = (of_char c :: nat) in
      (48 \<le> n \<and> n \<le> 57) \<or> (65 \<le> n \<and> n \<le> 90) \<or> n = 95 \<or> (97 \<le> n \<and> n \<le> 122)
      \<or> n = 170 \<or> n = 178 \<or> n = 179 \<or> n = 181 \<or> n = 185 \<or> n = 186
      \<or> (188 \<le> n \<and> n \<le> 190) \<or> (192 \<le> n \<and> n \<le> 214)
      \<or> (216 \<le> n \<and> n \<le> 246) \<or> (248 \<le> n \<and> n \<le> 255))"

text \<open>
  The characters that can start and that can continue a Python identifier
  (\<^verbatim>\<open>str.isidentifier\<close>), up to U+00FF.
\<close>

definition is_id_start :: "char \<Rightarrow> bool" where
  "is_id_start c =
     (let n = (of_char c :: nat) in
      (65 \<le> n \<and> n \<le> 90) \<or> n = 95 \<or> (97 \<le> n \<and> n \<le> 122)
      \<or> n = 170 \<or> n = 181 \<or> n = 186 \<or> (192 \<le> n \<and> n \<le> 214)
      \<or> (216 \<le> n \<and> n \<le> 246) \<or> (248 \<le> n \<and> n \<le> 255))"

definition is_id_continue :: "char \<Rightarrow> bool" where
  "is_id_continue c =
     (let n = (of_char c :: nat) in
      (48 \<le> n \<and> n \<le> 57) \<or> n = 183 \<or> is_id_start c)"

definition is_digit :: "char \<Rightarrow> bool" where
  "is_digit c = (let n = (of_char c :: nat) in 48 \<le> n \<and> n \<le> 57)"

text \<open>\<^verbatim>\<open>sep.join(xs)\<close> on a list of strings.\<close>

fun join :: "string \<Rightarrow> string list \<Rightarrow> string" where
  "join sep [] = []"
| "join sep [x] = x"
| "join sep (x # y # ys) = x @ sep @ join sep (y # ys)"

text \<open>
  A compiled pattern is kept as the sequence of pieces that the source appends between
  \<^verbatim>\<open>'^'\<close> and \<^verbatim>\<open>'$'\<close>: \<open>Lit s\<close> for \<^verbatim>\<open>re.escape(s)\<close>, which
  matches \<open>s\<close> verbatim, and \<open>Grp n\<close> for \<^verbatim>\<open>(?P<n>\w+)\<close>.
\<close>

datatype token = Lit string | Grp string

type_synonym regex = "token list"

text \<open>
  One attempt of \<^verbatim>\<open>\{(\w+)\}\<close> at the head of a string: the brace, the longest
  run of word characters (not empty), the closing brace. A shorter run cannot be
  followed by a brace, so backtracking adds nothing. The result is the group and the
  text after the match.
\<close>

definition match_placeholder :: "string \<Rightarrow> (string \<times> string) option" where
  "match_placeholder s =
     (case s of
        [] \<Rightarrow> None
      | c # t \<Rightarrow>
          if c = CHR ''{'' then
            (let name = takeWhile is_word t; rest = dropWhile is_word t in
             case rest of
               [] \<Rightarrow> None
             | d # rest' \<Rightarrow> if name \<noteq> [] \<and> d = CHR ''}'' then Some (name, rest') else None)
          else None)"

lemma match_placeholder_shorter:
  "match_placeholder s = Some (name, rest) \<Longrightarrow> length rest < length s"
proof -
  assume a: "match_placeholder s = Some (name, rest)"
  then obtain t where s: "s = CHR ''{'' # t"
    by (auto simp: match_placeholder_def split: list.splits if_splits)
  from a s obtain d where "dropWhile is_word t = d # rest"
    by (auto simp: match_placeholder_def Let_def split: list.splits if_splits)
  then have "length (d # rest) \<le> length t"
    using length_dropWhile_le [of is_word t] by simp
  with s show ?thesis by simp
qed

text \<open>
  The loop over \<^verbatim>\<open>re.finditer\<close>: \<open>lit\<close> is the text since
  \<^verbatim>\<open>last_position\<close> that no match has covered. Matches are found leftmost first
  and do not overlap. After the loop the rest of the template is appended.
\<close>

function finditer :: "string \<Rightarrow> string \<Rightarrow> regex" where
  "finditer lit [] = [Lit lit]"
| "finditer lit (c # cs) =
     (case match_placeholder (c # cs) of
        Some (name, rest) \<Rightarrow> Lit lit # Grp name # finditer [] rest
      | None \<Rightarrow> finditer (lit @ [c]) cs)"
  by pat_completeness auto
termination
  by (relation "measure (\<lambda>(lit, s). length s)")
     (auto dest: match_placeholder_shorter)

definition compile_route_regex :: "string list \<Rightarrow> regex" where
  "compile_route_regex template = finditer [] (join ''/'' template)"

text \<open>
  In \<^verbatim>\<open>web.py\<close> the template can hold a list, and \<^verbatim>\<open>'/'.join\<close> raises
  \<^verbatim>\<open>TypeError\<close> on an element that is not a string.
\<close>

fun all_strings :: "pyobj list \<Rightarrow> string list option" where
  "all_strings [] = Some []"
| "all_strings (PStr s # xs) = map_option ((#) s) (all_strings xs)"
| "all_strings (PList l # xs) = None"

subsection \<open>\<^verbatim>\<open>re.match\<close> on a compiled pattern\<close>

text \<open>
  \<^verbatim>\<open>re.match\<close> compiles the pattern first: a group name must be an identifier
  (\<^verbatim>\<open>name.isidentifier()\<close>) and no name may be used twice, else
  \<^verbatim>\<open>re.error\<close> is raised.
\<close>

fun group_names :: "regex \<Rightarrow> string list" where
  "group_names [] = []"
| "group_names (Lit s # ts) = group_names ts"
| "group_names (Grp n # ts) = n # group_names ts"

definition is_identifier :: "string \<Rightarrow> bool" where
  "is_identifier n = (n \<noteq> [] \<and> is_id_start (hd n) \<and> list_all is_id_continue n)"

definition regex_valid :: "regex \<Rightarrow> bool" where
  "regex_valid r = (list_all is_identifier (group_names r) \<and> distinct (group_names r))"

text \<open>Python's \<^verbatim>\<open>s.startswith(p)\<close>.\<close>

fun startswith :: "string \<Rightarrow> string \<Rightarrow> bool" where
  "startswith s [] = True"
| "startswith [] (p # ps) = False"
| "startswith (c # cs) (p # ps) = (c = p \<and> startswith cs ps)"

text \<open>
  Matching proper. \<^verbatim>\<open>\w+\<close> is greedy: it takes the longest run first and gives
  characters back one at a time until the rest of the pattern matches; \<open>try_group\<close>
  is that loop, with \<open>k\<close> the length tried. \<^verbatim>\<open>$\<close> (without
  \<^verbatim>\<open>re.MULTILINE\<close>) matches at the end of the string and also just before a
  newline that ends the string. The result is the \<^verbatim>\<open>groupdict()\<close> of the match.
\<close>

fun try_group :: "(string \<Rightarrow> (string \<times> string) list option) \<Rightarrow> string \<Rightarrow> string \<Rightarrow> nat
    \<Rightarrow> (string \<times> string) list option" where
  "try_group cont n s 0 = None"
| "try_group cont n s (Suc k) =
     (case cont (drop (Suc k) s) of
        Some g \<Rightarrow> Some ((n, take (Suc k) s) # g)
      | None \<Rightarrow> try_group cont n s k)"

fun match_tokens :: "regex \<Rightarrow> string \<Rightarrow> (string \<times> string) list option" where
  "match_tokens [] s = (if s = [] \<or> s = [CHR 0x0A] then Some [] else None)"
| "match_tokens (Lit l # ts) s =
     (if startswith s l then match_tokens ts (drop (length l) s) else None)"
| "match_tokens (Grp n # ts) s =
     try_group (match_tokens ts) n s (length (takeWhile is_word s))"

definition re_match :: "regex \<Rightarrow> string \<Rightarrow> exn + (string \<times> string) list option" where
  "re_match r s = (if regex_valid r then Inr (match_tokens r s) else Inl ReError)"

section \<open>Parameter coercer\<close>

definition get_parameter_mappings :: "'v handler \<Rightarrow> (string \<times> 'v annotation) list" where
  "get_parameter_mappings callable = params callable"

text \<open>
  \<^verbatim>\<open>map_params\<close> walks the items of the context in order. \<^verbatim>\<open>mappings[name]\<close>
  raises \<^verbatim>\<open>KeyError\<close> for a name the signature does not have; a converter can
  raise anything.
\<close>

fun map_params :: "(string \<times> 'v annotation) list \<Rightarrow> (string \<times> 'v val) list
    \<Rightarrow> exn + (string \<times> 'v val) list" where
  "map_params mappings [] = Inr []"
| "map_params mappings ((name, value) # context) =
     (case map_of mappings name of
        None \<Rightarrow> Inl KeyError
      | Some Empty \<Rightarrow>
          (case map_params mappings context of
             Inl e \<Rightarrow> Inl e
           | Inr result \<Rightarrow> Inr ((name, value) # result))
      | Some (Conv mapping) \<Rightarrow>
          (case mapping value of
             Inl e \<Rightarrow> Inl e
           | Inr v \<Rightarrow>
               (case map_params mappings context of
                  Inl e \<Rightarrow> Inl e
                | Inr result \<Rightarrow> Inr ((name, v) # result))))"

section \<open>Request dispatcher\<close>

text \<open>\<^verbatim>\<open>d[k] = v\<close> on an insertion-ordered dictionary.\<close>

fun dict_set :: "string \<Rightarrow> 'a \<Rightarrow> (string \<times> 'a) list \<Rightarrow> (string \<times> 'a) list" where
  "dict_set k v [] = [(k, v)]"
| "dict_set k v ((k', v') # d) = (if k' = k then (k, v) # d else (k', v') # dict_set k v d)"

text \<open>
  The local variables of the re-walk. \<^verbatim>\<open>keyword\<close> and \<^verbatim>\<open>response\<close> are
  unbound until first assigned: \<open>None\<close>, and reading them then raises
  \<^verbatim>\<open>UnboundLocalError\<close>.
\<close>

record 'v walk_state =
  url_context :: "(string \<times> 'v val) list"
  sitemap_context :: "'v node"
  keyword :: "string option"
  response :: "'v val option"

definition is_placeholder :: "string \<Rightarrow> bool" where
  "is_placeholder segment =
     (segment \<noteq> [] \<and> hd segment = CHR ''{'' \<and> last segment = CHR ''}'')"

text \<open>
  \<^verbatim>\<open>if segment.startswith('{') and segment.endswith('}'):\<close> with its two
  assignments; \<^verbatim>\<open>segment[1:-1]\<close> is \<open>butlast (tl segment)\<close>.
\<close>

definition bind_placeholder :: "request \<Rightarrow> string \<Rightarrow> 'v walk_state \<Rightarrow> exn + 'v walk_state" where
  "bind_placeholder req segment st =
     (if is_placeholder segment then
        (let kw = butlast (tl segment) in
         case map_of (urlvars req) kw of
           None \<Rightarrow> Inl KeyError
         | Some raw \<Rightarrow>
             Inr (st\<lparr>keyword := Some kw, url_context := dict_set kw (Str raw) (url_context st)\<rparr>))
      else Inr st)"

text \<open>\<^verbatim>\<open>sitemap_context[segment]\<close>.\<close>

fun subscript :: "'v node \<Rightarrow> string \<Rightarrow> exn + 'v node" where
  "subscript (Branch m) k = (case map_of m k of None \<Rightarrow> Inl KeyError | Some n \<Rightarrow> Inr n)"
| "subscript (Leaf h) k = Inl TypeError"
| "subscript (Other t c) k = Inl TypeError"

text \<open>
  The choice of \<^verbatim>\<open>resource_callable\<close>: the node itself when it is callable and
  the segment is not empty, the node's \<^verbatim>\<open>''\<close> entry when it is a mapping that
  has one, else \<^verbatim>\<open>None\<close>.
\<close>

fun choose_callable :: "string \<Rightarrow> 'v node \<Rightarrow> exn + 'v node option" where
  "choose_callable segment (Leaf h) = Inr (if segment \<noteq> [] then Some (Leaf h) else None)"
| "choose_callable segment (Branch m) = Inr (map_of m [])"
| "choose_callable segment (Other t c) =
     (case c of None \<Rightarrow> Inl TypeError | Some True \<Rightarrow> Inl TypeError | Some False \<Rightarrow> Inr None)"

text \<open>The truth value that \<^verbatim>\<open>if resource_callable:\<close> tests (\<^verbatim>\<open>None\<close> is false).\<close>

fun truthy :: "'v node \<Rightarrow> bool" where
  "truthy (Leaf h) = True"
| "truthy (Branch m) = (m \<noteq> [])"
| "truthy (Other t c) = t"

text \<open>
  \<^verbatim>\<open>resource_callable(request, **url_context)\<close>: the request fills the first
  parameter; the keyword names must be exactly the other parameters.
\<close>

definition call_handler :: "'v handler \<Rightarrow> request \<Rightarrow> (string \<times> 'v val) list \<Rightarrow> exn + 'v val" where
  "call_handler h req kwargs =
     (case params h of
        [] \<Rightarrow> Inl TypeError
      | p # ps \<Rightarrow>
          if fst p \<notin> set (map fst kwargs) \<and> set (map fst kwargs) = set (map fst ps)
          then body h req (map_of kwargs)
          else Inl TypeError)"

text \<open>
  The body of \<^verbatim>\<open>if resource_callable:\<close>. \<^verbatim>\<open>inspect.signature\<close> raises
  \<^verbatim>\<open>TypeError\<close> on an object that is not callable.
\<close>

definition invoke :: "'v node \<Rightarrow> request \<Rightarrow> 'v walk_state \<Rightarrow> exn + 'v walk_state" where
  "invoke resource_callable req st =
     (case resource_callable of
        Leaf h \<Rightarrow>
          (case map_params (get_parameter_mappings h) (url_context st) of
             Inl e \<Rightarrow> Inl e
           | Inr ctx \<Rightarrow>
               (case call_handler h req ctx of
                  Inl e \<Rightarrow> Inl e
                | Inr v \<Rightarrow>
                    (case keyword st of
                       None \<Rightarrow> Inl UnboundLocalError
                     | Some kw \<Rightarrow> Inr (st\<lparr>url_context := dict_set kw v ctx, response := Some v\<rparr>))))
      | Branch m \<Rightarrow> Inl TypeError
      | Other t c \<Rightarrow> Inl TypeError)"

text \<open>One iteration of \<^verbatim>\<open>for segment in route_template\<close>.\<close>

definition step :: "request \<Rightarrow> string \<Rightarrow> 'v walk_state \<Rightarrow> exn + 'v walk_state" where
  "step req segment st =
     (case bind_placeholder req segment st of
        Inl e \<Rightarrow> Inl e
      | Inr st1 \<Rightarrow>
          (case subscript (sitemap_context st1) segment of
             Inl e \<Rightarrow> Inl e
           | Inr n \<Rightarrow>
               (let st2 = st1\<lparr>sitemap_context := n\<rparr> in
                case choose_callable segment n of
                  Inl e \<Rightarrow> Inl e
                | Inr None \<Rightarrow> Inr st2
                | Inr (Some resource_callable) \<Rightarrow>
                    (if truthy resource_callable then invoke resource_callable req st2
                     else Inr st2))))"

fun walk :: "request \<Rightarrow> string list \<Rightarrow> 'v walk_state \<Rightarrow> exn + 'v walk_state" where
  "walk req [] st = Inr st"
| "walk req (segment # segments) st =
     (case step req segment st of
        Inl e \<Rightarrow> Inl e
      | Inr st' \<Rightarrow> walk req segments st')"

definition initial_state :: "'v sitemap \<Rightarrow> 'v walk_state" where
  "initial_state sitemap =
     \<lparr>url_context = [], sitemap_context = Branch sitemap, keyword = None, response = None\<rparr>"

text \<open>
  \<^verbatim>\<open>get_route_response\<close> (\<^verbatim>\<open>get_url_vars\<close> in \<^verbatim>\<open>web.py\<close>):
  \<^verbatim>\<open>next(route_template)\<close> drops the prefix segment and raises
  \<^verbatim>\<open>StopIteration\<close> on an empty template; \<^verbatim>\<open>return response\<close> reads a
  variable that only a handler invocation assigns.
\<close>

definition get_route_response :: "'v sitemap \<Rightarrow> string list \<Rightarrow> request \<Rightarrow> exn + 'v val" where
  "get_route_response sitemap route_template req =
     (case route_template of
        [] \<Rightarrow> Inl StopIteration
      | p # segments \<Rightarrow>
          (case walk req segments (initial_state sitemap) of
             Inl e \<Rightarrow> Inl e
           | Inr st \<Rightarrow>
               (case response st of None \<Rightarrow> Inl UnboundLocalError | Some v \<Rightarrow> Inr v)))"

text \<open>
  What a controller hands to the server: an HTTP error with its status, or the
  response rendered from the final value (the rendering itself is outside the core).
  \<open>Inl e\<close> is an exception that leaves the controller uncaught.
\<close>

datatype 'v http_response = HTTPError nat | Rendered "'v val"

type_synonym 'v controller = "request \<Rightarrow> exn + 'v http_response"

text \<open>
  The closure \<^verbatim>\<open>replacement\<close> of \<^verbatim>\<open>make_route_response\<close>
  (\<^verbatim>\<open>tawdry.py\<close>): only \<^verbatim>\<open>webob.exc.HTTPException\<close> is caught; a value
  that is an \<^verbatim>\<open>HTTPException\<close> instance is returned as it is. The argument
  \<^verbatim>\<open>callable\<close> only selects the rendering.
\<close>

definition make_route_response :: "'v sitemap \<Rightarrow> string list \<Rightarrow> 'v handler \<Rightarrow> 'v controller" where
  "make_route_response sitemap route_template callable env =
     (case get_route_response sitemap route_template env of
        Inl e \<Rightarrow> (case e of HTTPException s \<Rightarrow> Inr (HTTPError s) | _ \<Rightarrow> Inl e)
      | Inr v \<Rightarrow> (case v of HTTPVal s \<Rightarrow> Inr (HTTPError s) | _ \<Rightarrow> Inr (Rendered v)))"

text \<open>
  The closure \<^verbatim>\<open>replacement\<close> of \<^verbatim>\<open>make_controller\<close> (\<^verbatim>\<open>web.py\<close>):
  the value is turned into a string inside the \<^verbatim>\<open>try\<close>, so every returned
  value is rendered.
\<close>

definition make_controller :: "'v sitemap \<Rightarrow> string list \<Rightarrow> 'v handler \<Rightarrow> 'v controller" where
  "make_controller sitemap route_template callable env =
     (case get_route_response sitemap route_template env of
        Inl e \<Rightarrow> (case e of HTTPException s \<Rightarrow> Inr (HTTPError s) | _ \<Rightarrow> Inl e)
      | Inr v \<Rightarrow> Inr (Rendered v))"

section \<open>Router\<close>

type_synonym 'v routes = "(regex \<times> 'v controller) list"

text \<open>
  \<^verbatim>\<open>Tawdry.__init__\<close>: the generator is consumed to its end; compiling a
  template of strings and building a controller raise nothing, so the constructor
  raises exactly when the generator does.
\<close>

definition tawdry_init :: "'v sitemap \<Rightarrow> string \<Rightarrow> exn + 'v routes" where
  "tawdry_init sitemap prefix =
     (case generate_sitemap sitemap [prefix] of
        (rs, Some e) \<Rightarrow> Inl e
      | (rs, None) \<Rightarrow>
          Inr (map (\<lambda>(route_template, callable).
                 (compile_route_regex route_template,
                  make_route_response sitemap route_template callable)) rs))"

text \<open>
  The loop of \<^verbatim>\<open>serve\<close> in \<^verbatim>\<open>web.py\<close> that builds the routes before
  the server is made: each yielded template is compiled before the generator is resumed,
  so a template that is not a list of strings raises \<^verbatim>\<open>TypeError\<close> in
  \<^verbatim>\<open>'/'.join\<close> before a later error of the generator.
\<close>

fun web_compile_routes :: "'v sitemap \<Rightarrow> 'v web_route list \<Rightarrow> exn + 'v routes" where
  "web_compile_routes sitemap [] = Inr []"
| "web_compile_routes sitemap ((route_template, callable) # rs) =
     (case all_strings route_template of
        None \<Rightarrow> Inl TypeError
      | Some t \<Rightarrow>
          (case web_compile_routes sitemap rs of
             Inl e \<Rightarrow> Inl e
           | Inr routes \<Rightarrow>
               Inr ((compile_route_regex t, make_controller sitemap t callable) # routes)))"

definition web_serve_routes :: "'v sitemap \<Rightarrow> exn + 'v routes" where
  "web_serve_routes sitemap =
     (case web_generate_sitemap sitemap (web_entry_prefix (Some (PStr []))) of
        (rs, e) \<Rightarrow>
          (case web_compile_routes sitemap rs of
             Inl e' \<Rightarrow> Inl e'
           | Inr routes \<Rightarrow> (case e of Some e' \<Rightarrow> Inl e' | None \<Rightarrow> Inr routes)))"

text \<open>
  \<^verbatim>\<open>Tawdry.__call__\<close> and \<^verbatim>\<open>Router.__call__\<close>: the routes in list order;
  \<^verbatim>\<open>webob.exc.HTTPNotFound\<close> has status 404.
\<close>

fun router_call :: "'v routes \<Rightarrow> request \<Rightarrow> exn + 'v http_response" where
  "router_call [] env = Inr (HTTPError 404)"
| "router_call ((regex, controller) # routes) env =
     (case re_match regex (path_info env) of
        Inl e \<Rightarrow> Inl e
      | Inr None \<Rightarrow> router_call routes env
      | Inr (Some groupdict) \<Rightarrow> controller (env\<lparr>urlvars := groupdict\<rparr>))"

text \<open>
  \<^verbatim>\<open>Tawdry(sitemap, prefix)(env, start_response)\<close>: build the application, then
  serve one request with it.
\<close>

definition tawdry_app :: "'v sitemap \<Rightarrow> string \<Rightarrow> request \<Rightarrow> exn + 'v http_response" where
  "tawdry_app sitemap prefix env =
     (case tawdry_init sitemap prefix of
        Inl e \<Rightarrow> Inl e
      | Inr routes \<Rightarrow> router_call routes env)"

section \<open>The example application of the source\<close>

text \<open>
  The handlers and the sitemap under \<^verbatim>\<open>if __name__ == '__main__'\<close> in
  \<^verbatim>\<open>tawdry.py\<close>. Its values are integers and dictionaries of strings.
\<close>

datatype example_value = IntV int | DictV "(string \<times> string) list"

text \<open>
  Python's \<^verbatim>\<open>int\<close> as a converter. On a string of word characters, which is what
  a placeholder captures, it accepts decimal digits (up to U+00FF: the ASCII digits)
  with single underscores between them and raises \<^verbatim>\<open>ValueError\<close> otherwise; it
  raises \<^verbatim>\<open>TypeError\<close> on a dictionary or an exception object.
\<close>

fun int_literal_ok :: "string \<Rightarrow> bool" where
  "int_literal_ok [] = False"
| "int_literal_ok [c] = is_digit c"
| "int_literal_ok (c # d # cs) =
     (is_digit c \<and> (if d = CHR ''_'' then int_literal_ok cs else int_literal_ok (d # cs)))"

fun decimal :: "nat \<Rightarrow> string \<Rightarrow> nat" where
  "decimal acc [] = acc"
| "decimal acc (c # cs) =
     (if is_digit c then decimal (10 * acc + (of_char c - 48)) cs else decimal acc cs)"

definition py_int :: "example_value val \<Rightarrow> exn + example_value val" where
  "py_int v =
     (case v of
        Str s \<Rightarrow>
          if int_literal_ok s then Inr (Obj (IntV (int (decimal 0 s))))
          else Inl (ValueError
                 (''invalid literal for int() with base 10: '' @ [CHR 0x27] @ s @ [CHR 0x27]))
      | Obj (IntV i) \<Rightarrow> Inr (Obj (IntV i))
      | Obj (DictV d) \<Rightarrow> Inl TypeError
      | HTTPVal st \<Rightarrow> Inl TypeError)"

text \<open>\<^verbatim>\<open>value['name']\<close> as the example handlers use it.\<close>

definition name_of :: "example_value val option \<Rightarrow> exn + string" where
  "name_of v =
     (case v of
        Some (Obj (DictV d)) \<Rightarrow> (case map_of d ''name'' of None \<Rightarrow> Inl KeyError | Some n \<Rightarrow> Inr n)
      | _ \<Rightarrow> Inl TypeError)"

definition publisher :: "example_value handler" where
  "publisher =
     \<lparr>params = [(''request'', Empty), (''publisher_id'', Conv py_int)],
      body = (\<lambda>request kwargs. Inr (Obj (DictV [(''name'', ''Mad Hat'')])))\<rparr>"

definition author :: "example_value handler" where
  "author =
     \<lparr>params = [(''request'', Empty), (''publisher_id'', Empty), (''author_id'', Empty)],
      body = (\<lambda>request kwargs.
        case name_of (kwargs ''publisher_id'') of
          Inl e \<Rightarrow> Inl e
        | Inr n \<Rightarrow> Inr (Obj (DictV [(''name'', ''Sonny Jim''), (''pubname'', n)])))\<rparr>"

definition book :: "example_value handler" where
  "book =
     \<lparr>params = [(''request'', Empty), (''publisher_id'', Empty), (''author_id'', Empty),
                (''book_id'', Empty)],
      body = (\<lambda>request kwargs.
        case name_of (kwargs ''author_id'') of
          Inl e \<Rightarrow> Inl e
        | Inr n \<Rightarrow> Inr (Obj (DictV [(''name'', n @ '' - The Book'')])))\<rparr>"

definition author_sitemap :: "example_value sitemap" where
  "author_sitemap =
     [(''author'', Branch
        [(''{author_id}'', Branch
           [('''', Leaf author),
            (''book'', Branch [(''{book_id}'', Leaf book)])])])]"

definition example_sitemap :: "example_value sitemap" where
  "example_sitemap =
     [(''publisher'', Branch
        [(''{publisher_id}'', Branch (('''', Leaf publisher) # author_sitemap))])]"

section \<open>Auxiliary notions for the statements\<close>

text \<open>A sitemap holds a node that is neither a mapping nor a callable.\<close>

fun has_invalid :: "'v sitemap \<Rightarrow> bool" where
  "has_invalid [] = False"
| "has_invalid ((segment, sub_segment) # items) =
     (case sub_segment of
        Branch m \<Rightarrow> has_invalid m \<or> has_invalid items
      | Leaf h \<Rightarrow> has_invalid items
      | Other t c \<Rightarrow> True)"

text \<open>Python's \<^verbatim>\<open>k in s\<close> on strings and \<^verbatim>\<open>s.split(sep)\<close> for one character.\<close>

fun occurs_in :: "string \<Rightarrow> string \<Rightarrow> bool" where
  "occurs_in k [] = (k = [])"
| "occurs_in k (c # cs) = (startswith (c # cs) k \<or> occurs_in k cs)"

fun split_on :: "char \<Rightarrow> string \<Rightarrow> string list" where
  "split_on sep [] = [[]]"
| "split_on sep (c # cs) =
     (if c = sep then [] # split_on sep cs
      else (case split_on sep cs of [] \<Rightarrow> [[c]] | x # xs \<Rightarrow> (c # x) # xs))"

text \<open>
  The routes as the specification words them: every handler with the keys on its own
  path from the root, the empty key left out. \<open>leaf_keys_last\<close> holds of a sitemap
  in which a handler under a non-empty key is the last entry of its mapping.
\<close>

fun key_paths :: "'v sitemap \<Rightarrow> string list \<Rightarrow> 'v route list" where
  "key_paths [] prefix = []"
| "key_paths ((segment, sub_segment) # items) prefix =
     (case sub_segment of
        Branch m \<Rightarrow> key_paths m (prefix @ [segment])
      | Leaf h \<Rightarrow> [(if segment \<noteq> [] then prefix @ [segment] else prefix, h)]
      | Other t c \<Rightarrow> [])
     @ key_paths items prefix"

fun leaf_keys_last :: "'v sitemap \<Rightarrow> bool" where
  "leaf_keys_last [] = True"
| "leaf_keys_last ((segment, sub_segment) # items) =
     (case sub_segment of
        Branch m \<Rightarrow> leaf_keys_last m \<and> leaf_keys_last items
      | Leaf h \<Rightarrow> (segment = [] \<or> items = []) \<and> leaf_keys_last items
      | Other t c \<Rightarrow> leaf_keys_last items)"




lemmas regex_eval =
  re_match_def compile_route_regex_def match_placeholder_def is_word_def regex_valid_def
  is_identifier_def is_digit_def is_id_start_def is_id_continue_def

lemmas dispatch_eval =
  tawdry_app_def tawdry_init_def make_route_response_def make_controller_def
  get_route_response_def initial_state_def step_def bind_placeholder_def is_placeholder_def
  invoke_def get_parameter_mappings_def call_handler_def Let_def

section \<open>Further handlers and sitemaps\<close>

text \<open>
  A handler that declares one of two bound names: \<^verbatim>\<open>def month_view(request, month)\<close>
  under \<^verbatim>\<open>{'{year}': {'{month}': month_view}}\<close>.
\<close>

definition month_view :: "example_value handler" where
  "month_view =
     \<lparr>params = [(''request'', Empty), (''month'', Empty)],
      body = (\<lambda>request kwargs.
        case kwargs ''month'' of None \<Rightarrow> Inl (OtherError ''unreachable'') | Some v \<Rightarrow> Inr v)\<rparr>"

definition archive_sitemap :: "example_value sitemap" where
  "archive_sitemap = [(''{year}'', Branch [(''{month}'', Leaf month_view)])]"

text \<open>Two routes of which the second also matches what the first matches.\<close>

definition about_routes :: "example_value routes" where
  "about_routes =
     [(compile_route_regex ['''', ''about''], \<lambda>env. Inr (Rendered (Str ''about page''))),
      (compile_route_regex ['''', ''{page}''], \<lambda>env. Inr (Rendered (Str ''some page'')))]"

text \<open>
  Routes compiled for \<^verbatim>\<open>{'contact': contact}\<close> and served after the sitemap,
  which the controllers hold by reference, has become \<^verbatim>\<open>{'about': contact}\<close>.
\<close>

definition contact :: "example_value handler" where
  "contact =
     \<lparr>params = [(''request'', Empty)],
      body = (\<lambda>request kwargs. Inr (Str ''write to us''))\<rparr>"

definition stale_routes :: "example_value routes" where
  "stale_routes =
     [(compile_route_regex ['''', ''contact''],
       make_route_response [(''about'', Leaf contact)] ['''', ''contact''] contact)]"




text \<open>
  A sitemap that uses one placeholder name at two levels,
  \<^verbatim>\<open>{'{x}': {'{x}': page}}\<close> with \<^verbatim>\<open>def page(request, x): return x\<close>.
\<close>

definition page :: "example_value handler" where
  "page =
     \<lparr>params = [(''request'', Empty), (''x'', Empty)],
      body = (\<lambda>request kwargs.
        case kwargs ''x'' of None \<Rightarrow> Inl (OtherError ''unreachable'') | Some v \<Rightarrow> Inr v)\<rparr>"

definition twice_sitemap :: "example_value sitemap" where
  "twice_sitemap = [(''{x}'', Branch [(''{x}'', Leaf page)])]"

text \<open>
  A handler under a literal key that signals a domain failure the sanctioned way:
  \<^verbatim>\<open>def gone(request): raise webob.exc.HTTPGone()\<close>, status 410.
\<close>

definition gone :: "example_value handler" where
  "gone =
     \<lparr>params = [(''request'', Empty)],
      body = (\<lambda>request kwargs. Inl (HTTPException 410))\<rparr>"

section \<open>Helper lemmas\<close>

lemma generate_sitemap_error:
  "snd (generate_sitemap sitemap prefix) =
     (if has_invalid sitemap then Some invalid_datatype else None)"
proof (induction sitemap prefix rule: generate_sitemap.induct)
  case (1 prefix)
  then show ?case by simp
next
  case (2 segment sub_segment items prefix)
  show ?case
  proof (cases sub_segment)
    case (Branch m)
    obtain rs e where m: "generate_sitemap m (prefix @ [segment]) = (rs, e)"
      by (cases "generate_sitemap m (prefix @ [segment])")
    have e: "e = (if has_invalid m then Some invalid_datatype else None)"
      using "2.IH"(1) [OF Branch] m by simp
    show ?thesis
    proof (cases e)
      case None
      have "snd (generate_sitemap items prefix) =
          (if has_invalid items then Some invalid_datatype else None)"
        using "2.IH"(2) [OF Branch _ None] m None by simp
      with Branch m None e show ?thesis
        by (auto split: prod.splits if_splits)
    next
      case (Some x)
      with Branch m e show ?thesis by (simp split: if_splits)
    qed
  next
    case (Leaf h)
    then show ?thesis
      using "2.IH"(3) [OF Leaf refl] by (auto split: prod.splits if_splits simp: Let_def)
  next
    case (Other t c)
    then show ?thesis by simp
  qed
qed

lemma web_generate_sitemap_error:
  "snd (web_generate_sitemap sitemap prefix) =
     (if has_invalid sitemap then Some invalid_datatype else None)"
proof (induction sitemap prefix rule: web_generate_sitemap.induct)
  case (1 prefix)
  then show ?case by simp
next
  case (2 segment sub_segment items prefix)
  show ?case
  proof (cases sub_segment)
    case (Branch m)
    obtain rs e where m: "web_generate_sitemap m [PList (prefix @ [PStr segment])] = (rs, e)"
      by (cases "web_generate_sitemap m [PList (prefix @ [PStr segment])]")
    have e: "e = (if has_invalid m then Some invalid_datatype else None)"
      using "2.IH"(1) [OF refl Branch] m by simp
    show ?thesis
    proof (cases e)
      case None
      have "snd (web_generate_sitemap items prefix) =
          (if has_invalid items then Some invalid_datatype else None)"
        using "2.IH"(2) [OF refl Branch _ None] m None by simp
      with Branch m None e show ?thesis
        by (auto split: prod.splits if_splits)
    next
      case (Some x)
      with Branch m e show ?thesis by (simp split: if_splits)
    qed
  next
    case (Leaf h)
    then show ?thesis
      using "2.IH"(3) [OF refl Leaf refl] by (auto split: prod.splits if_splits simp: Let_def)
  next
    case (Other t c)
    then show ?thesis by simp
  qed
qed

lemma web_compile_routes_error:
  "web_compile_routes sitemap rs = Inl e \<Longrightarrow> e = TypeError"
  by (induction rs arbitrary: e) (auto split: option.splits sum.splits)

lemma walk_append:
  "walk req (xs @ ys) st =
     (case walk req xs st of Inl e \<Rightarrow> Inl e | Inr st' \<Rightarrow> walk req ys st')"
  by (induction xs arbitrary: st) (auto split: sum.splits)

lemma walk_step_error:
  assumes "walk req pre st0 = Inr st" and "step req segment st = Inl e"
  shows "walk req (pre @ segment # post) st0 = Inl e"
  using assms by (simp add: walk_append)

lemma bind_placeholder_error:
  "bind_placeholder req segment st = Inl e \<Longrightarrow> e = KeyError"
  by (auto simp: bind_placeholder_def Let_def split: if_splits option.splits)

lemma bind_placeholder_sitemap_context:
  "bind_placeholder req segment st = Inr st1 \<Longrightarrow> sitemap_context st1 = sitemap_context st"
  by (auto simp: bind_placeholder_def Let_def split: if_splits option.splits)

lemma map_params_append:
  "map_params mappings (xs @ ys) =
     (case map_params mappings xs of
        Inl e \<Rightarrow> Inl e
      | Inr r \<Rightarrow> (case map_params mappings ys of Inl e \<Rightarrow> Inl e | Inr r' \<Rightarrow> Inr (r @ r')))"
proof (induction xs)
  case Nil
  show ?case by (simp split: sum.splits)
next
  case (Cons a xs)
  obtain name v where a: "a = (name, v)" by (cases a)
  show ?case unfolding a using Cons
    by (simp split: option.splits annotation.splits sum.splits)
qed

lemma controllers_uncaught:
  assumes "get_route_response sitemap route_template req = Inl e" and "\<not> is_http e"
  shows "make_route_response sitemap route_template callable req = Inl e"
    and "make_controller sitemap route_template callable req = Inl e"
  using assms by (cases e; simp add: make_route_response_def make_controller_def)+

lemma invoke_needs_keyword:
  "invoke resource_callable req st = Inr st' \<Longrightarrow> keyword st \<noteq> None"
  by (auto simp: invoke_def split: node.splits sum.splits option.splits)

lemma step_literal_unbound:
  assumes "\<not> is_placeholder segment" and "keyword st = None"
      and "step req segment st = Inr st'"
  shows "keyword st' = None \<and> response st' = response st \<and> url_context st' = url_context st"
proof -
  have b: "bind_placeholder req segment st = Inr st"
    using assms(1) by (simp add: bind_placeholder_def)
  from assms(3) b obtain n where n: "subscript (sitemap_context st) segment = Inr n"
    by (auto simp: step_def split: sum.splits)
  let ?st2 = "st\<lparr>sitemap_context := n\<rparr>"
  have k: "keyword ?st2 = None" using assms(2) by simp
  have "st' = ?st2"
  proof (cases "choose_callable segment n")
    case (Inl e)
    with assms(3) b n show ?thesis by (simp add: step_def)
  next
    case (Inr rc)
    show ?thesis
    proof (cases rc)
      case None
      with assms(3) b n Inr show ?thesis by (simp add: step_def)
    next
      case (Some c)
      show ?thesis
      proof (cases "truthy c")
        case True
        with assms(3) b n Inr Some have "invoke c req ?st2 = Inr st'"
          by (simp add: step_def)
        from invoke_needs_keyword [OF this] k show ?thesis by simp
      next
        case False
        with assms(3) b n Inr Some show ?thesis by (simp add: step_def)
      qed
    qed
  qed
  with assms(2) show ?thesis by simp
qed

lemma walk_literal_unbound:
  assumes "list_all (\<lambda>s. \<not> is_placeholder s) segments" and "keyword st = None"
      and "walk req segments st = Inr st'"
  shows "keyword st' = None \<and> response st' = response st \<and> url_context st' = url_context st"
  using assms
proof (induction segments arbitrary: st)
  case Nil
  then show ?case by simp
next
  case (Cons s segments)
  from Cons.prems(3) obtain st1 where s1: "step req s st = Inr st1"
    and w: "walk req segments st1 = Inr st'"
    by (auto split: sum.splits)
  from Cons.prems(1) have np: "\<not> is_placeholder s" and rest: "list_all (\<lambda>s. \<not> is_placeholder s) segments"
    by simp_all
  from step_literal_unbound [OF np Cons.prems(2) s1]
  have k1: "keyword st1 = None" and r1: "response st1 = response st"
    and u1: "url_context st1 = url_context st" by simp_all
  from Cons.IH [OF rest k1 w] r1 u1 show ?case by simp
qed

lemma first_placeholder_before_response:
  assumes "keyword st0 = None" and "response st0 = None"
      and "walk req segments st0 = Inr st'" and "response st' = Some v"
  shows "\<exists>pre seg post st. segments = pre @ seg # post \<and> is_placeholder seg
           \<and> list_all (\<lambda>s. \<not> is_placeholder s) pre
           \<and> walk req pre st0 = Inr st \<and> keyword st = None \<and> response st = None"
  using assms
proof (induction segments arbitrary: st0)
  case Nil
  then show ?case by simp
next
  case (Cons s segments)
  show ?case
  proof (cases "is_placeholder s")
    case True
    have "s # segments = [] @ s # segments \<and> is_placeholder s
        \<and> list_all (\<lambda>s. \<not> is_placeholder s) []
        \<and> walk req [] st0 = Inr st0 \<and> keyword st0 = None \<and> response st0 = None"
      using True Cons.prems(1,2) by simp
    then show ?thesis by blast
  next
    case False
    from Cons.prems(3) obtain st1 where s1: "step req s st0 = Inr st1"
      and w: "walk req segments st1 = Inr st'"
      by (auto split: sum.splits)
    from step_literal_unbound [OF False Cons.prems(1) s1] Cons.prems(2)
    have k1: "keyword st1 = None" and r1: "response st1 = None" by simp_all
    from Cons.IH [OF k1 r1 w Cons.prems(4)]
    obtain pre seg post st where p: "segments = pre @ seg # post" "is_placeholder seg"
      "list_all (\<lambda>s. \<not> is_placeholder s) pre" "walk req pre st1 = Inr st"
      "keyword st = None" "response st = None"
      by blast
    have "s # segments = (s # pre) @ seg # post \<and> is_placeholder seg
        \<and> list_all (\<lambda>s. \<not> is_placeholder s) (s # pre)
        \<and> walk req (s # pre) st0 = Inr st \<and> keyword st = None \<and> response st = None"
      using p False s1 by simp
    then show ?thesis by blast
  qed
qed













section \<open>What the compiler and the matcher do guarantee\<close>

text \<open>
  On a sitemap without invalid nodes in which no handler under a non-empty key has a
  later sibling, \<^verbatim>\<open>generate_sitemap\<close> of \<^verbatim>\<open>tawdry.py\<close> yields the key paths.
\<close>

lemma generate_sitemap_key_paths:
  "\<not> has_invalid sitemap \<Longrightarrow> leaf_keys_last sitemap \<Longrightarrow>
     generate_sitemap sitemap prefix = (key_paths sitemap prefix, None)"
proof (induction sitemap prefix rule: generate_sitemap.induct)
  case (1 prefix)
  then show ?case by simp
next
  case (2 segment sub_segment items prefix)
  show ?case
  proof (cases sub_segment)
    case (Branch m)
    with "2.prems" have m: "\<not> has_invalid m" "leaf_keys_last m"
      and i: "\<not> has_invalid items" "leaf_keys_last items"
      by simp_all
    have gm: "generate_sitemap m (prefix @ [segment]) = (key_paths m (prefix @ [segment]), None)"
      using "2.IH"(1) [OF Branch m] .
    have gi: "generate_sitemap items prefix = (key_paths items prefix, None)"
      using "2.IH"(2) [OF Branch gm [symmetric] refl i] .
    from Branch gm gi show ?thesis by simp
  next
    case (Leaf h)
    with "2.prems" have i: "\<not> has_invalid items" "leaf_keys_last items"
      and last: "segment = [] \<or> items = []"
      by simp_all
    have gi: "generate_sitemap items (if segment \<noteq> [] then prefix @ [segment] else prefix) =
        (key_paths items (if segment \<noteq> [] then prefix @ [segment] else prefix), None)"
      using "2.IH"(3) [OF Leaf refl i] .
    from last show ?thesis
    proof
      assume "segment = []"
      with Leaf gi show ?thesis by simp
    next
      assume "items = []"
      with Leaf show ?thesis by (simp add: Let_def)
    qed
  next
    case (Other t c)
    with "2.prems" show ?thesis by simp
  qed
qed





text \<open>
  A letter above ASCII is a word character: the path \<^verbatim>\<open>/\<close> followed by
  U+00E9 matches the pattern of \<^verbatim>\<open>['', '{x}']\<close>.
\<close>

lemma latin1_letter_is_captured:
  "re_match (compile_route_regex ['''', ''{x}'']) (''/'' @ [CHR 0xE9]) =
     Inr (Some [(''x'', [CHR 0xE9])])"
  by (simp add: regex_eval)














section \<open>Route compilation\<close>

text \<open>
  Claim C2. A handler under the empty key should get the path of its enclosing mapping,
  unchanged. The code does not do that. In \<^verbatim>\<open>tawdry.py\<close> the variable
  \<^verbatim>\<open>prefix\<close> still holds the key of an earlier callable sibling: for
  \<^verbatim>\<open>{'a': f, '': g}\<close> with prefix \<^verbatim>\<open>''\<close> the handler \<open>g\<close> is compiled
  with the segments \<^verbatim>\<open>['', 'a']\<close> where the enclosing mapping's path is
  \<^verbatim>\<open>['']\<close>, as \<open>key_paths\<close> has it. In \<^verbatim>\<open>web.py\<close> the test
  \<^verbatim>\<open>if segment:\<close> is made on the one-element list, so the empty key is always
  appended: \<^verbatim>\<open>{'': g}\<close> yields \<^verbatim>\<open>['', '']\<close>.
\<close>

theorem empty_key_lengthens_path:
  "map fst (fst (generate_sitemap [(''a'', Leaf f), ('''', Leaf g)] [''''])) =
     [['''', ''a''], ['''', ''a'']]
   \<and> map fst (key_paths [(''a'', Leaf f), ('''', Leaf g)] ['''']) = [['''', ''a''], ['''']]
   \<and> map fst (fst (web_generate_sitemap [('''', Leaf g)] (web_entry_prefix (Some (PStr '''')))))
       = [[PStr '''', PStr '''']]"
  by (simp add: web_entry_prefix_def Let_def)

text \<open>
  Claim C3. The segments of a route should be the keys on the path from the root to its
  handler, whatever the siblings are. In \<^verbatim>\<open>tawdry.py\<close> the key of a callable
  stays in \<^verbatim>\<open>prefix\<close> for every later entry of the same mapping: \<open>g\<close> under
  \<^verbatim>\<open>'b'\<close> gets \<^verbatim>\<open>['', 'a', 'b']\<close> after a sibling \<^verbatim>\<open>'a'\<close> and
  \<^verbatim>\<open>['', 'b']\<close> before it. In \<^verbatim>\<open>web.py\<close> the recursive call wraps the
  path so far in a list, so a nested handler's template is not a list of keys, and
  compiling it raises \<^verbatim>\<open>TypeError\<close>.
\<close>

theorem sibling_key_leaks_into_route:
  "map fst (fst (generate_sitemap [(''a'', Leaf f), (''b'', Leaf g)] [''''])) =
     [['''', ''a''], ['''', ''a'', ''b'']]
   \<and> map fst (key_paths [(''a'', Leaf f), (''b'', Leaf g)] ['''']) =
     [['''', ''a''], ['''', ''b'']]
   \<and> map fst (fst (generate_sitemap [(''b'', Leaf g), (''a'', Leaf f)] [''''])) =
     [['''', ''b''], ['''', ''b'', ''a'']]
   \<and> map fst (fst (web_generate_sitemap [(''a'', Branch [(''b'', Leaf f)])]
         (web_entry_prefix (Some (PStr ''''))))) =
     [[PList [PStr '''', PStr ''a''], PStr ''b'']]
   \<and> web_serve_routes [(''a'', Branch [(''b'', Leaf f)])] = Inl TypeError"
  by (simp add: web_entry_prefix_def web_serve_routes_def Let_def)

text \<open>
  Claim C8. A placeholder's captured value should be the whole text of its path segment.
  The pattern ends in \<^verbatim>\<open>$\<close>, which Python also matches just before a newline
  that ends the string: for the template \<^verbatim>\<open>['', '{x}']\<close> the path
  \<^verbatim>\<open>/42\n\<close> matches, the captured value is \<^verbatim>\<open>42\<close>, and the text of the
  path's segment is \<^verbatim>\<open>42\n\<close>.
\<close>

theorem capture_drops_trailing_newline:
  "re_match (compile_route_regex ['''', ''{x}'']) (''/42'' @ [CHR 0x0A]) =
     Inr (Some [(''x'', ''42'')])
   \<and> split_on (CHR ''/'') (''/42'' @ [CHR 0x0A]) = ['''', ''42'' @ [CHR 0x0A]]"
  by (simp add: regex_eval)

text \<open>
  Claim C9, as amended. A sitemap that holds a node that is neither a mapping nor a
  callable does not compile: \<^verbatim>\<open>Tawdry.__init__\<close> raises \<^verbatim>\<open>ValueError\<close>
  with the fixed message \<^verbatim>\<open>Invalid datatype for sitemap\<close>, and the route loop of
  \<^verbatim>\<open>serve\<close> in \<^verbatim>\<open>web.py\<close> raises that error or the \<^verbatim>\<open>TypeError\<close>
  of an earlier nested template. No route table exists, so no request is served.
\<close>

theorem invalid_node_fails_compilation:
  assumes "has_invalid sitemap"
  shows "tawdry_init sitemap prefix = Inl (ValueError ''Invalid datatype for sitemap'')
    \<and> (web_serve_routes sitemap = Inl (ValueError ''Invalid datatype for sitemap'')
       \<or> web_serve_routes sitemap = Inl TypeError)"
proof -
  have "snd (generate_sitemap sitemap [prefix]) = Some invalid_datatype"
    using assms by (simp add: generate_sitemap_error)
  then have t: "tawdry_init sitemap prefix = Inl invalid_datatype"
    by (cases "generate_sitemap sitemap [prefix]") (simp add: tawdry_init_def)
  obtain rs e where g: "web_generate_sitemap sitemap (web_entry_prefix (Some (PStr []))) = (rs, e)"
    by (cases "web_generate_sitemap sitemap (web_entry_prefix (Some (PStr [])))")
  have e: "e = Some invalid_datatype"
    using web_generate_sitemap_error [of sitemap "web_entry_prefix (Some (PStr []))"] g assms
    by simp
  have "web_serve_routes sitemap = Inl invalid_datatype \<or> web_serve_routes sitemap = Inl TypeError"
  proof (cases "web_compile_routes sitemap rs")
    case (Inl x)
    then have "x = TypeError" by (rule web_compile_routes_error)
    with Inl g show ?thesis by (simp add: web_serve_routes_def)
  next
    case (Inr routes)
    with g e show ?thesis by (simp add: web_serve_routes_def)
  qed
  with t show ?thesis by (simp add: invalid_datatype_def)
qed

theorem invalid_node_fails_compilation_witness:
  "has_invalid [(''publisher'', Branch [(''logo'', Other True None)])]
   \<and> tawdry_init [(''publisher'', Branch [(''logo'', Other True None)])] '''' =
       (Inl (ValueError ''Invalid datatype for sitemap'') :: exn + example_value routes)"
  using invalid_node_fails_compilation
    [of "[(''publisher'', Branch [(''logo'', Other True None)])] :: example_value sitemap" "''''"]
  by simp

text \<open>
  The claim as stated asks for an error that names the offending key path. The error
  is the same for every sitemap: for \<^verbatim>\<open>{'publisher': {'logo': 5}}\<close> and for
  \<^verbatim>\<open>{'about': None}\<close> it is the one message, in which neither key occurs.
\<close>

theorem invalid_node_error_names_no_key:
  "tawdry_init [(''publisher'', Branch [(''logo'', Other True None)])] '''' =
     (Inl (ValueError ''Invalid datatype for sitemap'') :: exn + example_value routes)
   \<and> tawdry_init [(''about'', Other False None)] '''' =
     (Inl (ValueError ''Invalid datatype for sitemap'') :: exn + example_value routes)
   \<and> \<not> occurs_in ''logo'' ''Invalid datatype for sitemap''
   \<and> \<not> occurs_in ''publisher'' ''Invalid datatype for sitemap''
   \<and> \<not> occurs_in ''about'' ''Invalid datatype for sitemap''"
  by (simp add: tawdry_init_def invalid_datatype_def)

section \<open>Matching order\<close>

text \<open>
  Claim C7, as amended. The router goes through its routes in the order of the list
  built at construction and stops at the first route whose pattern either does not
  compile or matches the path. If the pattern does not compile (a group name that is
  used twice or is not an identifier), \<^verbatim>\<open>re.match\<close> raises \<^verbatim>\<open>re.error\<close>,
  which leaves the router uncaught. If it matches, the request goes to that route's
  controller with the match's groups as \<^verbatim>\<open>urlvars\<close>. The 404 response is given
  when every pattern compiles and none matches.
\<close>

theorem first_match_wins:
  "router_call routes env =
     (case find (\<lambda>(regex, controller).
                   if regex_valid regex then match_tokens regex (path_info env) \<noteq> None
                   else True) routes of
        None \<Rightarrow> Inr (HTTPError 404)
      | Some (regex, controller) \<Rightarrow>
          if regex_valid regex
          then controller (env\<lparr>urlvars := the (match_tokens regex (path_info env))\<rparr>)
          else Inl ReError)"
  by (induction routes) (auto simp: re_match_def split: option.splits if_splits)

theorem first_match_wins_witness:
  "router_call about_routes \<lparr>path_info = ''/about'', urlvars = []\<rparr> =
       Inr (Rendered (Str ''about page''))
   \<and> router_call about_routes \<lparr>path_info = ''/contact'', urlvars = []\<rparr> =
       Inr (Rendered (Str ''some page''))
   \<and> router_call about_routes \<lparr>path_info = ''/about/us'', urlvars = []\<rparr> =
       Inr (HTTPError 404)"
  using
    first_match_wins [of about_routes "\<lparr>path_info = ''/about'', urlvars = []\<rparr>"]
    first_match_wins [of about_routes "\<lparr>path_info = ''/contact'', urlvars = []\<rparr>"]
    first_match_wins [of about_routes "\<lparr>path_info = ''/about/us'', urlvars = []\<rparr>"]
  by (simp add: about_routes_def regex_eval)

text \<open>
  The claim as stated has every path that no pattern matches answered with the
  not-found response. For \<^verbatim>\<open>{'{x}': {'{x}': page}}\<close> the one compiled pattern
  names the group \<^verbatim>\<open>x\<close> twice: the application is built, and the request
  \<^verbatim>\<open>/unknown\<close>, which matches nothing, ends in an uncaught \<^verbatim>\<open>re.error\<close>.
\<close>

theorem repeated_name_raises_re_error:
  "map fst (fst (generate_sitemap twice_sitemap [''''])) = [['''', ''{x}'', ''{x}'']]
   \<and> compile_route_regex ['''', ''{x}'', ''{x}''] =
       [Lit ''/'', Grp ''x'', Lit ''/'', Grp ''x'', Lit '''']
   \<and> tawdry_app twice_sitemap '''' \<lparr>path_info = ''/unknown'', urlvars = []\<rparr> = Inl ReError"
  by (simp add: twice_sitemap_def page_def dispatch_eval regex_eval)

section \<open>Coercion\<close>

text \<open>
  Claim C6, as amended. \<^verbatim>\<open>map_params\<close> returns a context only when every name of
  the given context is a parameter of the handler; the result then has the same names
  in the same order, a value whose parameter has no annotation is unchanged, and a
  value whose parameter is annotated is what the annotation returns for it. An entry
  whose name the handler does not declare is never passed through: the coercion then
  raises, \<^verbatim>\<open>KeyError\<close> at that entry unless the annotation of an earlier entry
  raised first, and the handler is not called.
\<close>

theorem map_params_declared_names:
  "(map_params mappings given = Inr result \<longrightarrow>
      list_all2 (\<lambda>(name, value) (name', value'). name' = name \<and>
            (case map_of mappings name of
               None \<Rightarrow> False
             | Some Empty \<Rightarrow> value' = value
             | Some (Conv mapping) \<Rightarrow> mapping value = Inr value')) given result)
   \<and> (given = before @ (absent, x) # rest \<and> map_of mappings absent = None \<longrightarrow>
      map_params mappings given =
        (case map_params mappings before of
           Inl e \<Rightarrow> Inl e
         | Inr converted \<Rightarrow> Inl KeyError))
   \<and> (url_context st = before @ (absent, x) # rest
        \<and> map_of (get_parameter_mappings h) absent = None \<longrightarrow>
      invoke (Leaf h) req st =
        (case map_params (get_parameter_mappings h) before of
           Inl e \<Rightarrow> Inl e
         | Inr converted \<Rightarrow> Inl KeyError))"
proof (intro conjI impI)
  assume "map_params mappings given = Inr result"
  then show "list_all2 (\<lambda>(name, value) (name', value'). name' = name \<and>
            (case map_of mappings name of
               None \<Rightarrow> False
             | Some Empty \<Rightarrow> value' = value
             | Some (Conv mapping) \<Rightarrow> mapping value = Inr value')) given result"
  proof (induction given arbitrary: result)
    case Nil
    then show ?case by simp
  next
    case (Cons a ctx)
    obtain name v where a: "a = (name, v)" by (cases a)
    show ?case
    proof (cases "map_of mappings name")
      case None
      with Cons.prems a show ?thesis by simp
    next
      case (Some ann)
      show ?thesis
      proof (cases ann)
        case Empty
        with Cons.prems a Some obtain r where r: "map_params mappings ctx = Inr r"
          and res: "result = (name, v) # r"
          by (auto split: sum.splits)
        from Cons.IH [OF r] res a Some Empty show ?thesis by simp
      next
        case (Conv f)
        with Cons.prems a Some obtain v' r where fv: "f v = Inr v'"
          and r: "map_params mappings ctx = Inr r"
          and res: "result = (name, v') # r"
          by (auto split: sum.splits)
        from Cons.IH [OF r] res a Some Conv fv show ?thesis by simp
      qed
    qed
  qed
next
  assume "given = before @ (absent, x) # rest \<and> map_of mappings absent = None"
  then show "map_params mappings given =
        (case map_params mappings before of
           Inl e \<Rightarrow> Inl e
         | Inr converted \<Rightarrow> Inl KeyError)"
    by (simp add: map_params_append split: sum.splits)
next
  assume "url_context st = before @ (absent, x) # rest
        \<and> map_of (get_parameter_mappings h) absent = None"
  then show "invoke (Leaf h) req st =
        (case map_params (get_parameter_mappings h) before of
           Inl e \<Rightarrow> Inl e
         | Inr converted \<Rightarrow> Inl KeyError)"
    by (simp add: invoke_def map_params_append split: sum.splits)
qed

theorem map_params_declared_names_witness:
  "map_params (get_parameter_mappings author)
      [(''publisher_id'', Obj (DictV [(''name'', ''Mad Hat'')])), (''author_id'', Str ''7'')] =
     Inr [(''publisher_id'', Obj (DictV [(''name'', ''Mad Hat'')])), (''author_id'', Str ''7'')]
   \<and> list_all2 (\<lambda>(name, value) (name', value'). name' = name \<and>
            (case map_of (get_parameter_mappings author) name of
               None \<Rightarrow> False
             | Some Empty \<Rightarrow> value' = value
             | Some (Conv mapping) \<Rightarrow> mapping value = Inr value'))
        [(''publisher_id'', Obj (DictV [(''name'', ''Mad Hat'')])), (''author_id'', Str ''7'')]
        [(''publisher_id'', Obj (DictV [(''name'', ''Mad Hat'')])), (''author_id'', Str ''7'')]
   \<and> map_of (get_parameter_mappings publisher) ''author_id'' = None
   \<and> map_params (get_parameter_mappings publisher)
        [(''publisher_id'', Str ''42''), (''author_id'', Str ''7'')] = Inl KeyError
   \<and> map_params (get_parameter_mappings publisher)
        [(''publisher_id'', Str ''x42''), (''author_id'', Str ''7'')] =
       Inl (ValueError
         (''invalid literal for int() with base 10: '' @ [CHR 0x27] @ ''x42'' @ [CHR 0x27]))
   \<and> invoke (Leaf publisher) \<lparr>path_info = ''/42/7'', urlvars = []\<rparr>
        \<lparr>url_context = [(''publisher_id'', Str ''42''), (''author_id'', Str ''7'')],
          sitemap_context = Leaf publisher, keyword = Some ''author_id'', response = None\<rparr>
       = Inl KeyError"
proof -
  let ?ctx = "[(''publisher_id'', Obj (DictV [(''name'', ''Mad Hat'')])), (''author_id'', Str ''7'')]"
  let ?st = "\<lparr>url_context = [(''publisher_id'', Str ''42''), (''author_id'', Str ''7'')],
          sitemap_context = Leaf publisher, keyword = Some ''author_id'', response = None\<rparr>"
  have h: "map_params (get_parameter_mappings author) ?ctx = Inr ?ctx"
    by (simp add: get_parameter_mappings_def author_def)
  have n: "map_of (get_parameter_mappings publisher) ''author_id'' = None"
    by (simp add: get_parameter_mappings_def publisher_def)
  have b1: "map_params (get_parameter_mappings publisher) [(''publisher_id'', Str ''42'')]
      = Inr [(''publisher_id'', Obj (IntV 42))]"
    by (simp add: get_parameter_mappings_def publisher_def py_int_def is_digit_def)
  have b2: "map_params (get_parameter_mappings publisher) [(''publisher_id'', Str ''x42'')]
      = Inl (ValueError
         (''invalid literal for int() with base 10: '' @ [CHR 0x27] @ ''x42'' @ [CHR 0x27]))"
    by (simp add: get_parameter_mappings_def publisher_def py_int_def is_digit_def)
  note t1 = map_params_declared_names
    [where mappings = "get_parameter_mappings author" and given = ?ctx and result = ?ctx,
     THEN conjunct1, rule_format, OF h]
  note t2 = map_params_declared_names
    [where mappings = "get_parameter_mappings publisher"
       and given = "[(''publisher_id'', Str ''42''), (''author_id'', Str ''7'')]"
       and before = "[(''publisher_id'', Str ''42'')]" and absent = "''author_id''"
       and x = "Str ''7''" and rest = "[]",
     THEN conjunct2, THEN conjunct1, rule_format]
  note t3 = map_params_declared_names
    [where mappings = "get_parameter_mappings publisher"
       and given = "[(''publisher_id'', Str ''x42''), (''author_id'', Str ''7'')]"
       and before = "[(''publisher_id'', Str ''x42'')]" and absent = "''author_id''"
       and x = "Str ''7''" and rest = "[]",
     THEN conjunct2, THEN conjunct1, rule_format]
  note t4 = map_params_declared_names
    [where h = publisher and st = ?st
       and before = "[(''publisher_id'', Str ''42'')]" and absent = "''author_id''"
       and x = "Str ''7''" and rest = "[]"
       and req = "\<lparr>path_info = ''/42/7'', urlvars = []\<rparr>",
     THEN conjunct2, THEN conjunct2, rule_format]
  from h n t1 t2 t3 t4 b1 b2 show ?thesis by simp
qed

text \<open>
  The claim as stated has the entries that the handler does not declare passed through.
  With \<^verbatim>\<open>year\<close> and \<^verbatim>\<open>month\<close> bound and a handler that declares only
  \<^verbatim>\<open>month\<close>, the coercion raises \<^verbatim>\<open>KeyError\<close>, and so does the request
  \<^verbatim>\<open>/2020/05\<close>.
\<close>

theorem undeclared_name_raises_key_error:
  "map_params (get_parameter_mappings month_view)
      [(''year'', Str ''2020''), (''month'', Str ''05'')] = Inl KeyError
   \<and> tawdry_app archive_sitemap '''' \<lparr>path_info = ''/2020/05'', urlvars = []\<rparr> = Inl KeyError"
  by (simp add: archive_sitemap_def month_view_def dispatch_eval regex_eval)

section \<open>Failures during the re-walk\<close>

text \<open>
  Claim C4, as amended. When the re-walk reaches a mapping that has no entry for the
  next segment of the matched template, the lookup raises \<^verbatim>\<open>KeyError\<close>. The
  controller catches \<^verbatim>\<open>HTTPException\<close> only, so the \<^verbatim>\<open>KeyError\<close> leaves it
  uncaught: no 404 response is made.
\<close>

theorem rewalk_lookup_failure_uncaught:
  assumes "walk req pre (initial_state sitemap) = Inr st"
      and "sitemap_context st = Branch m"
      and "map_of m segment = None"
  shows "make_route_response sitemap (p # pre @ segment # post) callable req = Inl KeyError
       \<and> make_controller sitemap (p # pre @ segment # post) callable req = Inl KeyError"
proof -
  have "step req segment st = Inl KeyError"
  proof (cases "bind_placeholder req segment st")
    case (Inl e)
    then show ?thesis using bind_placeholder_error [OF Inl] by (simp add: step_def)
  next
    case (Inr st1)
    then show ?thesis
      using bind_placeholder_sitemap_context [OF Inr] assms(2,3) by (simp add: step_def)
  qed
  then have "walk req (pre @ segment # post) (initial_state sitemap) = Inl KeyError"
    using assms(1) by (rule walk_step_error [rotated])
  then have "get_route_response sitemap (p # pre @ segment # post) req = Inl KeyError"
    by (simp add: get_route_response_def)
  then show ?thesis
    using controllers_uncaught [of sitemap "p # pre @ segment # post" req KeyError callable]
    by simp
qed

theorem rewalk_lookup_failure_uncaught_witness:
  "walk \<lparr>path_info = ''/contact'', urlvars = []\<rparr> [] (initial_state [(''about'', Leaf contact)])
     = Inr (initial_state [(''about'', Leaf contact)])
   \<and> sitemap_context (initial_state [(''about'', Leaf contact)]) = Branch [(''about'', Leaf contact)]
   \<and> map_of [(''about'', Leaf contact)] ''contact'' = None
   \<and> make_route_response [(''about'', Leaf contact)] ['''', ''contact''] contact
        \<lparr>path_info = ''/contact'', urlvars = []\<rparr> = Inl KeyError"
  using rewalk_lookup_failure_uncaught
    [of "\<lparr>path_info = ''/contact'', urlvars = []\<rparr>" "[]" "[(''about'', Leaf contact)]"
        "initial_state [(''about'', Leaf contact)]" "[(''about'', Leaf contact)]" "''contact''"
        "''''" "[]" contact]
  by (simp add: initial_state_def)

text \<open>
  The claim as stated has such a request answered with a 404 response. The path
  \<^verbatim>\<open>/contact\<close> matches the compiled pattern, the re-walk finds neither
  \<^verbatim>\<open>'contact'\<close> nor \<^verbatim>\<open>''\<close> in the mapping, and the router's call ends with an
  uncaught \<^verbatim>\<open>KeyError\<close>.
\<close>

theorem stale_route_raises_key_error:
  "router_call stale_routes \<lparr>path_info = ''/contact'', urlvars = []\<rparr> = Inl KeyError"
  by (simp add: stale_routes_def contact_def dispatch_eval regex_eval)

text \<open>
  Claim C5, as amended. When the type declared for a parameter rejects the value it is
  given (the converter raises \<open>e\<close>), the exception leaves \<^verbatim>\<open>map_params\<close> and the
  re-walk unchanged. The controller does not turn it into a 400 response: it comes out
  uncaught, unless the converter itself raised an \<^verbatim>\<open>HTTPException\<close>, which becomes
  the response with its own status.
\<close>

theorem conversion_failure_not_answered:
  assumes "walk req pre (initial_state sitemap) = Inr st"
      and "bind_placeholder req segment st = Inr st1"
      and "subscript (sitemap_context st1) segment = Inr n"
      and "choose_callable segment n = Inr (Some (Leaf h))"
      and "url_context st1 = before @ (name, value) # rest"
      and "map_params (get_parameter_mappings h) before = Inr converted"
      and "map_of (get_parameter_mappings h) name = Some (Conv mapping)"
      and "mapping value = Inl e"
  shows "make_route_response sitemap (p # pre @ segment # post) callable req =
           (case e of HTTPException s \<Rightarrow> Inr (HTTPError s) | _ \<Rightarrow> Inl e)
       \<and> make_controller sitemap (p # pre @ segment # post) callable req =
           (case e of HTTPException s \<Rightarrow> Inr (HTTPError s) | _ \<Rightarrow> Inl e)"
proof -
  have "map_params (get_parameter_mappings h) (url_context st1) = Inl e"
    using assms(5-8) by (simp add: map_params_append)
  then have "invoke (Leaf h) req (st1\<lparr>sitemap_context := n\<rparr>) = Inl e"
    by (simp add: invoke_def)
  then have "step req segment st = Inl e"
    using assms(2-4) by (simp add: step_def)
  then have "walk req (pre @ segment # post) (initial_state sitemap) = Inl e"
    using assms(1) by (rule walk_step_error [rotated])
  then have "get_route_response sitemap (p # pre @ segment # post) req = Inl e"
    by (simp add: get_route_response_def)
  then show ?thesis
    by (simp add: make_route_response_def make_controller_def)
qed

text \<open>
  Claim C5, continued: the witness of the amended statement, and the request that the
  claim as stated has answered with a 400 response. For \<^verbatim>\<open>/publisher/x42\<close> the
  declared type \<^verbatim>\<open>int\<close> rejects \<^verbatim>\<open>x42\<close> and the \<^verbatim>\<open>ValueError\<close> leaves the
  application uncaught.
\<close>

theorem conversion_failure_not_answered_witness:
  "make_route_response [(''{publisher_id}'', Leaf publisher)] ['''', ''{publisher_id}''] publisher
      \<lparr>path_info = ''/x42'', urlvars = [(''publisher_id'', ''x42'')]\<rparr>
     = Inl (ValueError (''invalid literal for int() with base 10: '' @ [CHR 0x27] @ ''x42'' @ [CHR 0x27]))
   \<and> py_int (Str ''x42'')
     = Inl (ValueError (''invalid literal for int() with base 10: '' @ [CHR 0x27] @ ''x42'' @ [CHR 0x27]))"
proof -
  let ?req = "\<lparr>path_info = ''/x42'', urlvars = [(''publisher_id'', ''x42'')]\<rparr>"
  let ?sm = "[(''{publisher_id}'', Leaf publisher)]"
  let ?st1 = "(initial_state ?sm)\<lparr>keyword := Some ''publisher_id'',
      url_context := [(''publisher_id'', Str ''x42'')]\<rparr>"
  let ?e = "ValueError (''invalid literal for int() with base 10: '' @ [CHR 0x27] @ ''x42'' @ [CHR 0x27])"
  have a1: "walk ?req [] (initial_state ?sm) = Inr (initial_state ?sm)" by simp
  have a2: "bind_placeholder ?req ''{publisher_id}'' (initial_state ?sm) = Inr ?st1"
    by (simp add: bind_placeholder_def is_placeholder_def initial_state_def Let_def)
  have a3: "subscript (sitemap_context ?st1) ''{publisher_id}'' = Inr (Leaf publisher)"
    by (simp add: initial_state_def)
  have a4: "choose_callable ''{publisher_id}'' (Leaf publisher) = Inr (Some (Leaf publisher))"
    by simp
  have a5: "url_context ?st1 = [] @ (''publisher_id'', Str ''x42'') # []" by simp
  have a6: "map_params (get_parameter_mappings publisher) [] = Inr []" by simp
  have a7: "map_of (get_parameter_mappings publisher) ''publisher_id'' = Some (Conv py_int)"
    by (simp add: get_parameter_mappings_def publisher_def)
  have a8: "py_int (Str ''x42'') = Inl ?e"
    by (simp add: py_int_def is_digit_def)
  from conversion_failure_not_answered [OF a1 a2 a3 a4 a5 a6 a7 a8, of "''''" "[]" publisher] a8
  show ?thesis by simp
qed

theorem rejected_parameter_raises_value_error:
  "tawdry_app example_sitemap '''' \<lparr>path_info = ''/publisher/x42'', urlvars = []\<rparr>
     = Inl (ValueError (''invalid literal for int() with base 10: '' @ [CHR 0x27] @ ''x42'' @ [CHR 0x27]))"
  by (simp add: example_sitemap_def author_sitemap_def publisher_def author_def book_def
      py_int_def dispatch_eval regex_eval)

section \<open>The store-back\<close>

text \<open>
  Claim C10, as amended. The statement \<^verbatim>\<open>url_context[keyword] = response\<close> reads
  \<^verbatim>\<open>keyword\<close>, which only a placeholder segment assigns. First part: when the
  segments walked so far hold no placeholder and a handler is chosen at the next
  segment, the handler is called with the request alone (the context is still empty)
  and the dispatch never produces a response from its return value: if the handler
  returns, the store-back raises \<^verbatim>\<open>UnboundLocalError\<close>, which no
  \<^verbatim>\<open>except\<close> clause catches; if the handler raises, its exception propagates, and
  the controller turns it into the response when it is an \<^verbatim>\<open>HTTPException\<close>.
  Second part: when the re-walk returns a value, the template has a first placeholder
  segment, and up to it the walk has met no error and assigned no
  \<^verbatim>\<open>response\<close>, that is, invoked no handler. Third part: a controller renders a
  value only when the re-walk has returned it.
\<close>

theorem store_back_needs_placeholder:
  "(list_all (\<lambda>s. \<not> is_placeholder s) (pre @ [segment])
      \<and> walk req pre (initial_state sitemap) = Inr st
      \<and> subscript (sitemap_context st) segment = Inr n
      \<and> choose_callable segment n = Inr (Some (Leaf h))
    \<longrightarrow> get_route_response sitemap (p # pre @ segment # post) req
           = (case call_handler h req [] of
                Inl e \<Rightarrow> Inl e
              | Inr v \<Rightarrow> Inl UnboundLocalError)
      \<and> make_route_response sitemap (p # pre @ segment # post) callable req
           = (case call_handler h req [] of
                Inl e \<Rightarrow> (case e of HTTPException s \<Rightarrow> Inr (HTTPError s) | _ \<Rightarrow> Inl e)
              | Inr v \<Rightarrow> Inl UnboundLocalError)
      \<and> make_controller sitemap (p # pre @ segment # post) callable req
           = (case call_handler h req [] of
                Inl e \<Rightarrow> (case e of HTTPException s \<Rightarrow> Inr (HTTPError s) | _ \<Rightarrow> Inl e)
              | Inr v \<Rightarrow> Inl UnboundLocalError))
   \<and> (get_route_response sitemap (p # segments) req = Inr v'
    \<longrightarrow> (\<exists>pre' seg post' st'. segments = pre' @ seg # post' \<and> is_placeholder seg
           \<and> list_all (\<lambda>s. \<not> is_placeholder s) pre'
           \<and> walk req pre' (initial_state sitemap) = Inr st' \<and> response st' = None))
   \<and> (make_route_response sitemap route_template callable req = Inr (Rendered w)
    \<longrightarrow> get_route_response sitemap route_template req = Inr w)
   \<and> (make_controller sitemap route_template callable req = Inr (Rendered w)
    \<longrightarrow> get_route_response sitemap route_template req = Inr w)"
proof (intro conjI impI)
  assume a: "list_all (\<lambda>s. \<not> is_placeholder s) (pre @ [segment])
      \<and> walk req pre (initial_state sitemap) = Inr st
      \<and> subscript (sitemap_context st) segment = Inr n
      \<and> choose_callable segment n = Inr (Some (Leaf h))"
  then have lit: "list_all (\<lambda>s. \<not> is_placeholder s) pre" and np: "\<not> is_placeholder segment"
    and w: "walk req pre (initial_state sitemap) = Inr st"
    and sub: "subscript (sitemap_context st) segment = Inr n"
    and ch: "choose_callable segment n = Inr (Some (Leaf h))"
    by simp_all
  have "keyword (initial_state sitemap) = None" by (simp add: initial_state_def)
  from walk_literal_unbound [OF lit this w]
  have k: "keyword st = None" and u: "url_context st = []"
    by (simp_all add: initial_state_def)
  have b: "bind_placeholder req segment st = Inr st"
    using np by (simp add: bind_placeholder_def)
  have "invoke (Leaf h) req (st\<lparr>sitemap_context := n\<rparr>) =
      (case call_handler h req [] of Inl e \<Rightarrow> Inl e | Inr v \<Rightarrow> Inl UnboundLocalError)"
    using k u by (simp add: invoke_def split: sum.splits)
  then have s: "step req segment st =
      (case call_handler h req [] of Inl e \<Rightarrow> Inl e | Inr v \<Rightarrow> Inl UnboundLocalError)"
    using b sub ch by (simp add: step_def)
  obtain e where e: "step req segment st = Inl e"
    and e_def: "e = (case call_handler h req [] of Inl e \<Rightarrow> e | Inr v \<Rightarrow> UnboundLocalError)"
    using s by (cases "call_handler h req []") simp_all
  from walk_step_error [OF w e]
  have "walk req (pre @ segment # post) (initial_state sitemap) = Inl e" .
  then have g: "get_route_response sitemap (p # pre @ segment # post) req = Inl e"
    by (simp add: get_route_response_def)
  from g e_def show "get_route_response sitemap (p # pre @ segment # post) req
           = (case call_handler h req [] of
                Inl e \<Rightarrow> Inl e
              | Inr v \<Rightarrow> Inl UnboundLocalError)"
    by (simp split: sum.splits)
  from g e_def show "make_route_response sitemap (p # pre @ segment # post) callable req
           = (case call_handler h req [] of
                Inl e \<Rightarrow> (case e of HTTPException s \<Rightarrow> Inr (HTTPError s) | _ \<Rightarrow> Inl e)
              | Inr v \<Rightarrow> Inl UnboundLocalError)"
    by (simp add: make_route_response_def split: sum.splits)
  from g e_def show "make_controller sitemap (p # pre @ segment # post) callable req
           = (case call_handler h req [] of
                Inl e \<Rightarrow> (case e of HTTPException s \<Rightarrow> Inr (HTTPError s) | _ \<Rightarrow> Inl e)
              | Inr v \<Rightarrow> Inl UnboundLocalError)"
    by (simp add: make_controller_def split: sum.splits)
next
  assume "get_route_response sitemap (p # segments) req = Inr v'"
  then obtain stf where w: "walk req segments (initial_state sitemap) = Inr stf"
    and r: "response stf = Some v'"
    by (auto simp: get_route_response_def split: sum.splits option.splits)
  have "keyword (initial_state sitemap) = None" "response (initial_state sitemap) = None"
    by (simp_all add: initial_state_def)
  from first_placeholder_before_response [OF this w r]
  show "\<exists>pre' seg post' st'. segments = pre' @ seg # post' \<and> is_placeholder seg
           \<and> list_all (\<lambda>s. \<not> is_placeholder s) pre'
           \<and> walk req pre' (initial_state sitemap) = Inr st' \<and> response st' = None"
    by blast
next
  assume "make_route_response sitemap route_template callable req = Inr (Rendered w)"
  then show "get_route_response sitemap route_template req = Inr w"
    by (auto simp: make_route_response_def split: sum.splits exn.splits val.splits)
next
  assume "make_controller sitemap route_template callable req = Inr (Rendered w)"
  then show "get_route_response sitemap route_template req = Inr w"
    by (auto simp: make_controller_def split: sum.splits exn.splits)
qed

theorem store_back_needs_placeholder_witness:
  "make_route_response [(''contact'', Leaf contact)] ['''', ''contact''] contact
        \<lparr>path_info = ''/contact'', urlvars = []\<rparr> = Inl UnboundLocalError
   \<and> make_route_response [(''gone'', Leaf gone)] ['''', ''gone''] gone
        \<lparr>path_info = ''/gone'', urlvars = []\<rparr> = Inr (HTTPError 410)
   \<and> get_route_response example_sitemap ['''', ''publisher'', ''{publisher_id}'']
        \<lparr>path_info = ''/publisher/42'', urlvars = [(''publisher_id'', ''42'')]\<rparr>
       = Inr (Obj (DictV [(''name'', ''Mad Hat'')]))
   \<and> (\<exists>pre' seg post' st'. [''publisher'', ''{publisher_id}''] = pre' @ seg # post'
         \<and> is_placeholder seg \<and> list_all (\<lambda>s. \<not> is_placeholder s) pre'
         \<and> walk \<lparr>path_info = ''/publisher/42'', urlvars = [(''publisher_id'', ''42'')]\<rparr> pre'
              (initial_state example_sitemap) = Inr st'
         \<and> response st' = None)
   \<and> make_route_response example_sitemap ['''', ''publisher'', ''{publisher_id}''] publisher
        \<lparr>path_info = ''/publisher/42'', urlvars = [(''publisher_id'', ''42'')]\<rparr>
       = Inr (Rendered (Obj (DictV [(''name'', ''Mad Hat'')])))"
proof -
  let ?req = "\<lparr>path_info = ''/contact'', urlvars = []\<rparr>"
  let ?sm = "[(''contact'', Leaf contact)]"
  let ?greq = "\<lparr>path_info = ''/gone'', urlvars = []\<rparr>"
  let ?gsm = "[(''gone'', Leaf gone)]"
  let ?preq = "\<lparr>path_info = ''/publisher/42'', urlvars = [(''publisher_id'', ''42'')]\<rparr>"
  let ?V = "Obj (DictV [(''name'', ''Mad Hat'')])"
  have h1: "list_all (\<lambda>s. \<not> is_placeholder s) ([] @ [''contact''])
     \<and> walk ?req [] (initial_state ?sm) = Inr (initial_state ?sm)
     \<and> subscript (sitemap_context (initial_state ?sm)) ''contact'' = Inr (Leaf contact)
     \<and> choose_callable ''contact'' (Leaf contact) = Inr (Some (Leaf contact))"
    by (simp add: initial_state_def is_placeholder_def)
  have c1: "call_handler contact ?req [] = Inr (Str ''write to us'')"
    by (simp add: call_handler_def contact_def)
  have h1g: "list_all (\<lambda>s. \<not> is_placeholder s) ([] @ [''gone''])
     \<and> walk ?greq [] (initial_state ?gsm) = Inr (initial_state ?gsm)
     \<and> subscript (sitemap_context (initial_state ?gsm)) ''gone'' = Inr (Leaf gone)
     \<and> choose_callable ''gone'' (Leaf gone) = Inr (Some (Leaf gone))"
    by (simp add: initial_state_def is_placeholder_def)
  have c1g: "call_handler gone ?greq [] = Inl (HTTPException 410)"
    by (simp add: call_handler_def gone_def)
  have h2: "get_route_response example_sitemap ['''', ''publisher'', ''{publisher_id}''] ?preq
       = Inr ?V"
    by (simp add: example_sitemap_def author_sitemap_def publisher_def py_int_def is_digit_def
        dispatch_eval)
  have h3: "make_route_response example_sitemap ['''', ''publisher'', ''{publisher_id}'']
      publisher ?preq = Inr (Rendered ?V)"
    using h2 by (simp add: make_route_response_def)
  note t1 = store_back_needs_placeholder
    [where pre = "[]" and segment = "''contact''" and sitemap = ?sm and req = ?req
       and st = "initial_state ?sm" and n = "Leaf contact" and h = contact
       and p = "''''" and post = "[]" and callable = contact,
     THEN conjunct1, rule_format, OF h1]
  note t1g = store_back_needs_placeholder
    [where pre = "[]" and segment = "''gone''" and sitemap = ?gsm and req = ?greq
       and st = "initial_state ?gsm" and n = "Leaf gone" and h = gone
       and p = "''''" and post = "[]" and callable = gone,
     THEN conjunct1, rule_format, OF h1g]
  note t2 = store_back_needs_placeholder
    [where sitemap = example_sitemap and p = "''''"
       and segments = "[''publisher'', ''{publisher_id}'']" and req = ?preq and v' = ?V,
     THEN conjunct2, THEN conjunct1, rule_format, OF h2]
  note t3 = store_back_needs_placeholder
    [where sitemap = example_sitemap and callable = publisher and req = ?preq and w = ?V
       and route_template = "['''', ''publisher'', ''{publisher_id}'']",
     THEN conjunct2, THEN conjunct2, THEN conjunct1, rule_format, OF h3]
  from t1 c1 have r1: "make_route_response ?sm ['''', ''contact''] contact ?req
      = Inl UnboundLocalError"
    by simp
  from t1g c1g have r2: "make_route_response ?gsm ['''', ''gone''] gone ?greq
      = Inr (HTTPError 410)"
    by simp
  from r1 r2 h2 t2 h3 t3 show ?thesis by simp
qed

text \<open>
  The claim as stated has every such dispatch fail with an uncaught error. The handler
  \<^verbatim>\<open>gone\<close> under the literal key \<^verbatim>\<open>'gone'\<close> is invoked with no placeholder
  bound and raises \<^verbatim>\<open>HTTPGone\<close>: the request \<^verbatim>\<open>/gone\<close> is answered with
  status 410, no error is left uncaught, and no placeholder precedes the invocation.
\<close>

theorem raising_handler_is_answered:
  "tawdry_app [(''gone'', Leaf gone)] '''' \<lparr>path_info = ''/gone'', urlvars = []\<rparr>
     = Inr (HTTPError 410)
   \<and> list_all (\<lambda>s. \<not> is_placeholder s) [''gone'']"
  by (simp add: gone_def dispatch_eval regex_eval)

section \<open>Chaining\<close>




end
